theory Spec2Isabelle
  imports Complex_Main "HOL-Library.Sublist" "HOL-Library.Char_ord"
    "HOL-Library.List_Lexorder" "HOL-Library.Product_Lexorder" "HOL-Library.Multiset"
begin

section \<open>Values exchanged with the store\<close>

text \<open>
  The four scripts talk to a PostgreSQL store through psycopg2 (and, in one script, through
  a REST gateway). Their own logic is control flow around connection attempts, queries and
  printing. The model keeps that control flow: every call that can raise is a computation
  that either returns a value or raises, and every call on the connection is recorded as an
  event, so that properties of a run are properties of its event list.
\<close>

datatype json =
    JNull
  | JBool bool
  | JNum rat
  | JStr string
  | JArr "json list"
  | JObj "(string \<times> json) list"

text \<open>A row of \<open>public.codex\<close> as the script unpacks it: \<open>guid, section, data = row\<close>.\<close>

type_synonym codex_row = "string \<times> string \<times> json"

text \<open>A row of the column query: \<open>col_name, data_type, nullable, default\<close>;
  \<open>column_default\<close> is SQL NULL (Python \<open>None\<close>) or a text.\<close>

type_synonym column_row = "string \<times> string \<times> string \<times> string option"

section \<open>Exceptions, events and computations\<close>

text \<open>
  \<open>exn\<close> are the exceptions a library call raises, split the way the scripts' handlers
  split them: \<open>psycopg2.OperationalError\<close> and every other subclass of \<open>Exception\<close>.
  \<open>sys.exit(n)\<close> raises \<open>SystemExit\<close>, which \<open>except Exception\<close> does not catch.
\<close>

datatype exn = OperationalError | OtherException

datatype abort = Raised exn | SystemExit nat

datatype printed =
    OutTotal int
  | OutFetched nat
  | OutRecord string string json
  | OutSection string
  | OutSectionCount string int
  | OutTable string string
  | OutTableHeader string string
  | OutColumn string string string string
  | OutError string

datatype event =
    ConnectFailed nat exn
  | Connected nat
  | Execute nat string "string list"
  | CloseCursor nat
  | CloseConn nat
  | Print printed

type_synonym 'a comp = "event list \<times> (abort + 'a)"

definition ret :: "'a \<Rightarrow> 'a comp" where
  "ret x = ([], Inr x)"

definition raise_abort :: "abort \<Rightarrow> 'a comp" where
  "raise_abort a = ([], Inl a)"

definition emit :: "event \<Rightarrow> unit comp" where
  "emit e = ([e], Inr ())"

text \<open>Sequencing: the second statement runs only when the first did not raise.\<close>

definition then_do :: "'a comp \<Rightarrow> ('a \<Rightarrow> 'b comp) \<Rightarrow> 'b comp" where
  "then_do m f =
     (case m of
        (es, Inl a) \<Rightarrow> (es, Inl a)
      | (es, Inr x) \<Rightarrow> (case f x of (es', r) \<Rightarrow> (es @ es', r)))"

text \<open>\<open>try: m except Exception as e: h e\<close>: \<open>SystemExit\<close> passes through.\<close>

definition try_except :: "'a comp \<Rightarrow> (exn \<Rightarrow> 'a comp) \<Rightarrow> 'a comp" where
  "try_except m h =
     (case m of
        (es, Inl (Raised e)) \<Rightarrow> (case h e of (es', r) \<Rightarrow> (es @ es', r))
      | (es, Inl (SystemExit n)) \<Rightarrow> (es, Inl (SystemExit n))
      | (es, Inr x) \<Rightarrow> (es, Inr x))"

text \<open>\<open>try: m finally: f\<close>: \<open>f\<close> runs on every exit of \<open>m\<close>; the outcome is that of
  \<open>m\<close> unless \<open>f\<close> itself raises.\<close>

definition try_finally :: "'a comp \<Rightarrow> unit comp \<Rightarrow> 'a comp" where
  "try_finally m f =
     (case m of (es, r) \<Rightarrow>
        (case f of
           (es', Inl a) \<Rightarrow> (es @ es', Inl a)
         | (es', Inr _) \<Rightarrow> (es @ es', r)))"

text \<open>\<open>for x in xs: body x\<close>: the first iteration that raises ends the loop.\<close>

fun for_each :: "'a list \<Rightarrow> ('a \<Rightarrow> unit comp) \<Rightarrow> unit comp" where
  "for_each [] body = ret ()"
| "for_each (x # xs) body = then_do (body x) (\<lambda>_. for_each xs body)"

definition trace :: "'a comp \<Rightarrow> event list" where
  "trace m = fst m"

definition outcome :: "'a comp \<Rightarrow> abort + 'a" where
  "outcome m = snd m"

section \<open>The store as the scripts see it\<close>

text \<open>
  What the store answers is not decided by the scripts, so it is a parameter: for each
  connection attempt and each query of the sources, either the exception raised or the
  rows returned. \<open>execute\<close> and the \<open>fetchall\<close>/\<open>fetchone\<close> that follows it sit in the
  same \<open>try\<close> block everywhere, so one answer stands for the pair.
\<close>

record store =
  connect :: "nat \<Rightarrow> exn option"
  count_all :: "exn + int"
  sample_rows :: "exn + codex_row list"
  tag_rows :: "exn + codex_row list"
  distinct_sections :: "exn + string list"
  count_section :: "string \<Rightarrow> exn + int"
  tables :: "exn + (string \<times> string) list"
  columns :: "string \<Rightarrow> string \<Rightarrow> exn + column_row list"

text \<open>\<open>psycopg2.connect(..., port=p, ...)\<close>.\<close>

definition db_connect :: "store \<Rightarrow> nat \<Rightarrow> unit comp" where
  "db_connect st p =
     (case connect st p of
        Some e \<Rightarrow> ([ConnectFailed p e], Inl (Raised e))
      | None \<Rightarrow> ([Connected p], Inr ()))"

text \<open>\<open>cur.execute(sql, params)\<close> followed by the fetch of its result.\<close>

definition run_query :: "nat \<Rightarrow> string \<Rightarrow> string list \<Rightarrow> exn + 'a \<Rightarrow> 'a comp" where
  "run_query p sql params answer =
     ([Execute p sql params],
      (case answer of Inl e \<Rightarrow> Inl (Raised e) | Inr rows \<Rightarrow> Inr rows))"

section \<open>The query texts of the sources\<close>

definition nl :: string where
  "nl = [CHR 0x0A]"

definition list_tables_sql :: string where
  "list_tables_sql = nl @
     ''    SELECT table_schema, table_name '' @ nl @
     ''    FROM information_schema.tables '' @ nl @
     ''    WHERE table_schema NOT IN ('pg_catalog', 'information_schema')'' @ nl @
     ''    ORDER BY table_schema, table_name;'' @ nl"

definition list_columns_sql :: string where
  "list_columns_sql = nl @
     ''        SELECT '' @ nl @
     ''            column_name, '' @ nl @
     ''            data_type, '' @ nl @
     ''            is_nullable,'' @ nl @
     ''            column_default'' @ nl @
     ''        FROM information_schema.columns '' @ nl @
     ''        WHERE table_schema = %s AND table_name = %s'' @ nl @
     ''        ORDER BY ordinal_position;'' @ nl @
     ''    ''"

definition tag_search_sql :: string where
  \<open>tag_search_sql = nl @
     ''        SELECT guid, section, data '' @ nl @
     ''        FROM public.codex '' @ nl @
     ''        WHERE section = 'items' '' @ nl @
     ''        AND data->'gameplayTags' @> '["Artisanship.Crafting"]'::jsonb'' @ nl @
     ''        LIMIT 5'' @ nl @
     ''    ''\<close>

definition sections_sql :: string where
  "sections_sql = ''SELECT DISTINCT section FROM public.codex ORDER BY section''"

definition count_all_sql :: string where
  "count_all_sql = ''SELECT COUNT(*) FROM public.codex''"

definition sample_sql :: string where
  "sample_sql = ''SELECT guid, section, data FROM public.codex LIMIT 5''"

definition count_section_sql :: string where
  "count_section_sql = ''SELECT COUNT(*) FROM public.codex WHERE section = %s''"

section \<open>find_crafting.py\<close>

text \<open>Lines 38 to 53: the printed block of one row. \<open>data.get\<close> and \<open>data.keys\<close>
  exist on a JSON object (a Python \<open>dict\<close>) only; on any other value they raise
  \<open>AttributeError\<close>.\<close>

definition print_crafting_row :: "codex_row \<Rightarrow> unit comp" where
  "print_crafting_row = (\<lambda>(guid, section, data).
     case data of
       JObj members \<Rightarrow> emit (Print (OutRecord guid section data))
     | _ \<Rightarrow> raise_abort (Raised OtherException))"

text \<open>Lines 9 to 64: the body of the outer \<open>try\<close>.\<close>

definition find_crafting_body :: "store \<Rightarrow> unit comp" where
  "find_crafting_body st =
     then_do (db_connect st 5432) (\<lambda>_.
     then_do (run_query 5432 tag_search_sql [] (tag_rows st)) (\<lambda>rows.
     then_do (emit (Print (OutFetched (length rows)))) (\<lambda>_.
     then_do (for_each rows print_crafting_row) (\<lambda>_.
     then_do (run_query 5432 sections_sql [] (distinct_sections st)) (\<lambda>sections.
     then_do (for_each sections (\<lambda>section. emit (Print (OutSection section)))) (\<lambda>_.
     then_do (emit (CloseCursor 5432)) (\<lambda>_.
     emit (CloseConn 5432))))))))"

text \<open>Lines 67 to 95: the handler of \<open>psycopg2.OperationalError\<close>. After a successful
  connection on port 6543 the inner \<open>try\<close> body ends (its only other content is the
  comment \<open># Repeat the same queries...\<close>).\<close>

definition find_crafting_fallback :: "store \<Rightarrow> unit comp" where
  "find_crafting_fallback st =
     then_do (emit (Print (OutError ''Connection failed on port 5432''))) (\<lambda>_.
     try_except (db_connect st 6543)
       (\<lambda>e2. then_do (emit (Print (OutError ''Connection also failed on port 6543''))) (\<lambda>_.
              then_do (emit (Print (OutError ''CONNECTION FAILED''))) (\<lambda>_.
              raise_abort (SystemExit 1)))))"

text \<open>Lines 97 to 101: the handler of every other \<open>Exception\<close>.\<close>

definition find_crafting_unexpected :: "unit comp" where
  "find_crafting_unexpected =
     then_do (emit (Print (OutError ''Unexpected error''))) (\<lambda>_.
     raise_abort (SystemExit 1))"

definition find_crafting :: "store \<Rightarrow> unit comp" where
  "find_crafting st =
     try_except (find_crafting_body st)
       (\<lambda>e. case e of
               OperationalError \<Rightarrow> find_crafting_fallback st
             | OtherException \<Rightarrow> find_crafting_unexpected)"

section \<open>sample_data.py\<close>

text \<open>Lines 52 to 55: one count query per fetched section.\<close>

definition count_sections_loop :: "store \<Rightarrow> string list \<Rightarrow> unit comp" where
  "count_sections_loop st sections =
     for_each sections (\<lambda>section.
       then_do (run_query 6543 count_section_sql [section] (count_section st section)) (\<lambda>count.
       emit (Print (OutSectionCount section count))))"

text \<open>Lines 25 to 55: the body of the second \<open>try\<close>.\<close>

definition sample_data_body :: "store \<Rightarrow> unit comp" where
  "sample_data_body st =
     then_do (run_query 6543 count_all_sql [] (count_all st)) (\<lambda>count.
     then_do (emit (Print (OutTotal count))) (\<lambda>_.
     then_do (run_query 6543 sample_sql [] (sample_rows st)) (\<lambda>rows.
     then_do (emit (Print (OutFetched (length rows)))) (\<lambda>_.
     then_do (for_each rows (\<lambda>(guid, section, data).
                emit (Print (OutRecord guid section data)))) (\<lambda>_.
     then_do (run_query 6543 sections_sql [] (distinct_sections st)) (\<lambda>sections.
     count_sections_loop st sections))))))"

definition sample_data :: "store \<Rightarrow> unit comp" where
  "sample_data st =
     then_do (try_except (db_connect st 6543)
                (\<lambda>e. then_do (emit (Print (OutError ''Connection failed''))) (\<lambda>_.
                      raise_abort (SystemExit 1)))) (\<lambda>_.
     try_finally
       (try_except (sample_data_body st)
          (\<lambda>e. emit (Print (OutError ''Error during query''))))
       (then_do (emit (CloseCursor 6543)) (\<lambda>_. emit (CloseConn 6543))))"

section \<open>discover_schema.py\<close>

text \<open>Lines 51 and 52. Python's \<open>if default\<close> is false for \<open>None\<close> and for the empty
  string.\<close>

definition null_str :: "string \<Rightarrow> string" where
  "null_str nullable = (if nullable = ''YES'' then ''NULL'' else ''NOT NULL'')"

definition default_str :: "string option \<Rightarrow> string" where
  "default_str dflt =
     (case dflt of
        None \<Rightarrow> ''''
      | Some d \<Rightarrow> (if d = '''' then '''' else '' DEFAULT '' @ d))"

text \<open>Lines 35 to 53: the column query of one table and its printed lines.\<close>

definition describe_table :: "store \<Rightarrow> string \<times> string \<Rightarrow> unit comp" where
  "describe_table st = (\<lambda>(schema, table).
     then_do (emit (Print (OutTableHeader schema table))) (\<lambda>_.
     then_do (run_query 6543 list_columns_sql [schema, table] (columns st schema table)) (\<lambda>cols.
     for_each cols (\<lambda>(col_name, data_type, nullable, dflt).
       emit (Print (OutColumn col_name data_type (null_str nullable) (default_str dflt)))))))"

text \<open>The whole script: no \<open>try\<close> anywhere, so an exception ends the run where it is
  raised.\<close>

definition discover_schema :: "store \<Rightarrow> unit comp" where
  "discover_schema st =
     then_do (db_connect st 6543) (\<lambda>_.
     then_do (run_query 6543 list_tables_sql [] (tables st)) (\<lambda>tabs.
     then_do (for_each tabs (\<lambda>(schema, table). emit (Print (OutTable schema table)))) (\<lambda>_.
     then_do (for_each tabs (describe_table st)) (\<lambda>_.
     then_do (emit (CloseCursor 6543)) (\<lambda>_.
     emit (CloseConn 6543))))))"

section \<open>sample_data_api.py\<close>

text \<open>Lines 50 to 53: \<open>sections[section] = sections.get(section, 0) + 1\<close> for every
  record of the response.\<close>

fun tally :: "(string \<rightharpoonup> int) \<Rightarrow> string list \<Rightarrow> (string \<rightharpoonup> int)" where
  "tally sections [] = sections"
| "tally sections (section # records) =
     tally (sections(section \<mapsto> (case sections section of None \<Rightarrow> 0 | Some c \<Rightarrow> c) + 1)) records"

section \<open>What the queries denote on a PostgreSQL store\<close>

text \<open>
  The SQL of the sources is part of the program. Its meaning is given on a database value:
  the rows of the two catalog views the scripts read and the rows of \<open>public.codex\<close> in the
  order the store yields them. Texts are compared as lists of character codes, the order
  of the catalog's identifier columns.
\<close>

record column_entry =
  table_schema :: string
  table_name :: string
  column_name :: string
  ordinal_position :: int
  data_type :: string
  is_nullable :: string
  column_default :: "string option"

record database =
  catalog_tables :: "(string \<times> string) list"
  catalog_columns :: "column_entry list"
  codex :: "codex_row list"

text \<open>\<open>SELECT table_schema, table_name FROM information_schema.tables
  WHERE table_schema NOT IN ('pg_catalog', 'information_schema')
  ORDER BY table_schema, table_name\<close>.\<close>

definition list_tables :: "database \<Rightarrow> (string \<times> string) list" where
  "list_tables db =
     sort (filter (\<lambda>(schema, table). schema \<notin> {''pg_catalog'', ''information_schema''})
             (catalog_tables db))"

text \<open>\<open>FROM information_schema.columns WHERE table_schema = %s AND table_name = %s
  ORDER BY ordinal_position\<close>, before and after the projection of the \<open>SELECT\<close> list.\<close>

definition columns_of :: "database \<Rightarrow> string \<Rightarrow> string \<Rightarrow> column_entry list" where
  "columns_of db schema table =
     sort_key ordinal_position
       (filter (\<lambda>c. table_schema c = schema \<and> table_name c = table) (catalog_columns db))"

definition list_columns :: "database \<Rightarrow> string \<Rightarrow> string \<Rightarrow> column_row list" where
  "list_columns db schema table =
     map (\<lambda>c. (column_name c, data_type c, is_nullable c, column_default c))
       (columns_of db schema table)"

text \<open>The operator \<open>->\<close> with a text key: the member of an object, SQL NULL for a missing
  key and for a value that is not an object. A stored \<open>jsonb\<close> object has no duplicate
  keys.\<close>

definition json_field :: "json \<Rightarrow> string \<Rightarrow> json option" where
  "json_field d k = (case d of JObj members \<Rightarrow> map_of members k | _ \<Rightarrow> None)"

fun is_scalar :: "json \<Rightarrow> bool" where
  "is_scalar (JArr _) = False"
| "is_scalar (JObj _) = False"
| "is_scalar _ = True"

text \<open>Containment below the top level: an object contains an object whose every member
  it contains under the same key; an array contains an array whose every scalar element it
  has and whose every nested container is contained in one of its elements; scalars
  contain their equals; nothing else holds.\<close>

fun jsonb_deep_contains :: "json \<Rightarrow> json \<Rightarrow> bool" where
  "jsonb_deep_contains (JObj a) (JObj b) =
     (\<forall>(k, v) \<in> set b. case map_of a k of None \<Rightarrow> False | Some v' \<Rightarrow> jsonb_deep_contains v' v)"
| "jsonb_deep_contains (JArr a) (JArr b) =
     (\<forall>e \<in> set b. if is_scalar e then e \<in> set a else (\<exists>e' \<in> set a. jsonb_deep_contains e' e))"
| "jsonb_deep_contains (JArr a) _ = False"
| "jsonb_deep_contains (JObj a) _ = False"
| "jsonb_deep_contains a b = (a = b)"

text \<open>The operator \<open>@>\<close>: at the top level an array also contains a bare scalar that is
  one of its elements.\<close>

definition jsonb_contains :: "json \<Rightarrow> json \<Rightarrow> bool" where
  "jsonb_contains a b =
     (case a of
        JArr elems \<Rightarrow> (if is_scalar b then b \<in> set elems else jsonb_deep_contains a b)
      | _ \<Rightarrow> jsonb_deep_contains a b)"

text \<open>\<open>WHERE section = 'items' AND data->'gameplayTags' @> '["Artisanship.Crafting"]'::jsonb
  LIMIT 5\<close>, with the two literals of the text as arguments; a NULL left operand makes
  the condition NULL and the row is dropped.\<close>

definition tag_search_where :: "string \<Rightarrow> string \<Rightarrow> codex_row \<Rightarrow> bool" where
  "tag_search_where sec tag = (\<lambda>(guid, section, data).
     section = sec \<and>
     (case json_field data ''gameplayTags'' of
        None \<Rightarrow> False
      | Some tags \<Rightarrow> jsonb_contains tags (JArr [JStr tag])))"

definition tag_search :: "string \<Rightarrow> string \<Rightarrow> codex_row list \<Rightarrow> codex_row list" where
  "tag_search sec tag rows = take 5 (filter (tag_search_where sec tag) rows)"

text \<open>\<open>SELECT COUNT(*) FROM public.codex WHERE section = %s\<close>.\<close>

definition section_count :: "codex_row list \<Rightarrow> string \<Rightarrow> int" where
  "section_count rows s = int (length (filter (\<lambda>(guid, section, data). section = s) rows))"

text \<open>A store that answers every query of the sources: \<open>reach\<close> tells which ports accept
  a connection.\<close>

definition postgres :: "(nat \<Rightarrow> exn option) \<Rightarrow> database \<Rightarrow> store" where
  "postgres reach db =
     \<lparr> connect = reach,
       count_all = Inr (int (length (codex db))),
       sample_rows = Inr (take 5 (codex db)),
       tag_rows = Inr (tag_search ''items'' ''Artisanship.Crafting'' (codex db)),
       distinct_sections = Inr (sort (remdups (map (\<lambda>(guid, section, data). section) (codex db)))),
       count_section = (\<lambda>s. Inr (section_count (codex db) s)),
       tables = Inr (list_tables db),
       columns = (\<lambda>schema table. Inr (list_columns db schema table)) \<rparr>"

text \<open>
  The scripts never parse JSON themselves: psycopg2 decodes a \<open>json\<close>/\<open>jsonb\<close> column
  with \<open>json.loads\<close> while \<open>fetchall\<close> builds the rows, and an exception of that
  decoding leaves \<open>fetchall\<close>, so that no row of the batch reaches the script.
\<close>

datatype wire_json = Wellformed json | Malformed string

type_synonym wire_row = "string \<times> string \<times> wire_json"

definition decode_row :: "wire_row \<Rightarrow> exn + codex_row" where
  "decode_row = (\<lambda>(guid, section, payload).
     case payload of
       Wellformed d \<Rightarrow> Inr (guid, section, d)
     | Malformed text \<Rightarrow> Inl OtherException)"

fun fetchall_rows :: "wire_row list \<Rightarrow> exn + codex_row list" where
  "fetchall_rows [] = Inr []"
| "fetchall_rows (w # ws) =
     (case decode_row w of
        Inl e \<Rightarrow> Inl e
      | Inr r \<Rightarrow> (case fetchall_rows ws of Inl e \<Rightarrow> Inl e | Inr rs \<Rightarrow> Inr (r # rs)))"

fun malformed :: "wire_row \<Rightarrow> bool" where
  "malformed (guid, section, Malformed text) = True"
| "malformed (guid, section, Wellformed d) = False"

text \<open>
  Schemas that hold bookkeeping of the store rather than data of its user. PostgreSQL
  reserves the schema names that begin with \<open>pg_\<close> for the system, and
  \<open>information_schema\<close> is the catalog schema of the SQL standard. The store of the
  scripts is a Supabase project (host \<open>db.<ref>.supabase.co\<close>, user \<open>postgres\<close>), where
  the platform keeps the state of its own services in further schemas of the same
  database, each with its internal tables (for instance \<open>realtime.schema_migrations\<close>,
  \<open>auth.schema_migrations\<close>, \<open>storage.migrations\<close>); the catalog view shows their tables
  to the user of the scripts.
\<close>

definition platform_schemas :: "string list" where
  "platform_schemas =
     [''auth'', ''net'', ''pgsodium'', ''realtime'', ''storage'', ''supabase_functions'',
      ''supabase_migrations'', ''vault'']"

definition store_internal_schema :: "string \<Rightarrow> bool" where
  "store_internal_schema s =
     (s = ''information_schema'' \<or> prefix ''pg_'' s \<or> s \<in> set platform_schemas)"


definition reachable :: "nat \<Rightarrow> exn option" where
  "reachable p = None"

section \<open>Reading a run\<close>

fun attempts :: "event list \<Rightarrow> nat list" where
  "attempts [] = []"
| "attempts (ConnectFailed p e # es) = p # attempts es"
| "attempts (Connected p # es) = p # attempts es"
| "attempts (_ # es) = attempts es"

fun executed :: "event list \<Rightarrow> (string \<times> string list) list" where
  "executed [] = []"
| "executed (Execute p sql params # es) = (sql, params) # executed es"
| "executed (_ # es) = executed es"

fun opened :: "event list \<Rightarrow> nat list" where
  "opened [] = []"
| "opened (Connected p # es) = p # opened es"
| "opened (_ # es) = opened es"

fun released :: "event list \<Rightarrow> nat list" where
  "released [] = []"
| "released (CloseConn p # es) = p # released es"
| "released (_ # es) = released es"

fun printed_records :: "event list \<Rightarrow> codex_row list" where
  "printed_records [] = []"
| "printed_records (Print (OutRecord g s d) # es) = (g, s, d) # printed_records es"
| "printed_records (_ # es) = printed_records es"

fun printed_counts :: "event list \<Rightarrow> (string \<times> int) list" where
  "printed_counts [] = []"
| "printed_counts (Print (OutSectionCount s n) # es) = (s, n) # printed_counts es"
| "printed_counts (_ # es) = printed_counts es"

fun printed_tables :: "event list \<Rightarrow> (string \<times> string) list" where
  "printed_tables [] = []"
| "printed_tables (Print (OutTable s t) # es) = (s, t) # printed_tables es"
| "printed_tables (_ # es) = printed_tables es"

fun printed_errors :: "event list \<Rightarrow> string list" where
  "printed_errors [] = []"
| "printed_errors (Print (OutError m) # es) = m # printed_errors es"
| "printed_errors (_ # es) = printed_errors es"

text \<open>Inputs used to run the scripts.\<close>

definition empty_database :: database where
  "empty_database = \<lparr> catalog_tables = [], catalog_columns = [], codex = [] \<rparr>"

definition refuse_direct :: "exn \<Rightarrow> nat \<Rightarrow> exn option" where
  "refuse_direct e p = (if p = 5432 then Some e else None)"

definition refuse_all :: "exn \<Rightarrow> nat \<Rightarrow> exn option" where
  "refuse_all e p = Some e"

definition catalog_down :: store where
  "catalog_down = (postgres reachable empty_database) \<lparr> tables := Inl OperationalError \<rparr>"

definition tag_query_down :: store where
  "tag_query_down = (postgres reachable empty_database) \<lparr> tag_rows := Inl OtherException \<rparr>"

definition malformed_batch :: store where
  "malformed_batch = (postgres reachable empty_database)
     \<lparr> count_all := Inr 2,
       sample_rows := fetchall_rows
         [(''g1'', ''items'', Malformed ''{''),
          (''g2'', ''items'', Wellformed (JObj []))] \<rparr>"

definition six_rows :: database where
  "six_rows = \<lparr> catalog_tables = [(''public'', ''codex'')], catalog_columns = [],
     codex = map (\<lambda>g. (g, ''items'', JObj [])) [''a'', ''b'', ''c'', ''d'', ''e'', ''f''] \<rparr>"


definition iron_ingot :: codex_row where
  "iron_ingot = (''abc123'', ''items'',
     JObj [(''gameplayTags'', JArr [JStr ''Artisanship.Crafting'', JStr ''Common'']),
           (''itemName'', JStr ''Iron Ingot'')])"

definition example_catalog :: database where
  "example_catalog = \<lparr>
     catalog_tables =
       [(''public'', ''codex''), (''pg_catalog'', ''pg_class''),
        (''realtime'', ''schema_migrations''), (''information_schema'', ''tables''),
        (''auth'', ''users'')],
     catalog_columns =
       [\<lparr> table_schema = ''public'', table_name = ''codex'', column_name = ''data'',
           ordinal_position = 3, data_type = ''jsonb'', is_nullable = ''YES'',
           column_default = None \<rparr>,
        \<lparr> table_schema = ''public'', table_name = ''codex'', column_name = ''guid'',
           ordinal_position = 1, data_type = ''text'', is_nullable = ''NO'',
           column_default = Some ''gen_random_uuid()'' \<rparr>,
        \<lparr> table_schema = ''auth'', table_name = ''users'', column_name = ''id'',
           ordinal_position = 1, data_type = ''uuid'', is_nullable = ''NO'',
           column_default = None \<rparr>,
        \<lparr> table_schema = ''public'', table_name = ''codex'', column_name = ''section'',
           ordinal_position = 2, data_type = ''text'', is_nullable = ''NO'',
           column_default = None \<rparr>],
     codex = [] \<rparr>"

section \<open>Laws of the computations\<close>

lemma then_do_raise: "then_do (es, Inl a) f = (es, Inl a)"
  by (simp add: then_do_def)

lemma then_do_value: "then_do (es, Inr x) f = (es @ fst (f x), snd (f x))"
  by (simp add: then_do_def split: prod.splits)

lemma then_do_emit: "then_do (emit e) f = (e # fst (f ()), snd (f ()))"
  by (simp add: emit_def then_do_value)

lemma fst_emit: "fst (emit e) = [e]" and snd_emit: "snd (emit e) = Inr ()"
  by (simp_all add: emit_def)

lemma for_each_emit: "for_each xs (\<lambda>x. emit (g x)) = (map g xs, Inr ())"
  by (induction xs) (simp_all add: ret_def then_do_emit)

lemma for_each_emit_gen:
  "(\<And>x. body x = emit (g x)) \<Longrightarrow> for_each xs body = (map g xs, Inr ())"
  by (induction xs) (simp_all add: ret_def then_do_emit)

lemma for_each_emit_rows:
  "for_each rows (\<lambda>(guid, section, data). emit (g guid section data))
     = (map (\<lambda>(guid, section, data). g guid section data) rows, Inr ())"
  by (rule for_each_emit_gen) (simp add: split_beta)

lemma then_do_query_raise:
  "then_do (run_query p sql ps (Inl e)) f = ([Execute p sql ps], Inl (Raised e))"
  by (simp add: run_query_def then_do_raise)

lemma then_do_query_rows:
  "then_do (run_query p sql ps (Inr rows)) f = (Execute p sql ps # fst (f rows), snd (f rows))"
  by (simp add: run_query_def then_do_value)

lemma then_do_connected:
  "connect st p = None \<Longrightarrow>
   then_do (db_connect st p) f = (Connected p # fst (f ()), snd (f ()))"
  by (simp add: db_connect_def then_do_value)

section \<open>The runs of find_crafting.py\<close>

lemma find_crafting_fallback_ok:
  assumes "connect st 6543 = None"
  shows "find_crafting_fallback st =
    ([Print (OutError ''Connection failed on port 5432''), Connected 6543], Inr ())"
  using assms
  by (simp add: find_crafting_fallback_def then_do_emit db_connect_def try_except_def)

lemma find_crafting_fallback_fails:
  assumes "connect st 6543 = Some e2"
  shows "find_crafting_fallback st =
    ([Print (OutError ''Connection failed on port 5432''), ConnectFailed 6543 e2,
      Print (OutError ''Connection also failed on port 6543''),
      Print (OutError ''CONNECTION FAILED'')], Inl (SystemExit 1))"
  using assms
  by (simp add: find_crafting_fallback_def then_do_emit db_connect_def try_except_def
      raise_abort_def)

lemma find_crafting_unexpected_run:
  "find_crafting_unexpected = ([Print (OutError ''Unexpected error'')], Inl (SystemExit 1))"
  by (simp add: find_crafting_unexpected_def then_do_emit raise_abort_def)

lemma find_crafting_body_no_connect:
  assumes "connect st 5432 = Some e"
  shows "find_crafting_body st = ([ConnectFailed 5432 e], Inl (Raised e))"
  using assms by (simp add: find_crafting_body_def db_connect_def then_do_raise)

lemma then_do_split:
  "then_do m f =
     (case snd m of
        Inl a \<Rightarrow> (fst m, Inl a)
      | Inr x \<Rightarrow> (fst m @ fst (f x), snd (f x)))"
  by (cases m) (simp add: then_do_def split: sum.splits prod.splits)

lemma find_crafting_body_connected:
  assumes "connect st 5432 = None"
  shows "find_crafting_body st =
    (case tag_rows st of
       Inl e \<Rightarrow> ([Connected 5432, Execute 5432 tag_search_sql []], Inl (Raised e))
     | Inr rows \<Rightarrow>
        (case snd (for_each rows print_crafting_row) of
           Inl a \<Rightarrow>
             ([Connected 5432, Execute 5432 tag_search_sql [], Print (OutFetched (length rows))]
                @ fst (for_each rows print_crafting_row), Inl a)
         | Inr u \<Rightarrow>
        (case distinct_sections st of
           Inl e \<Rightarrow>
             ([Connected 5432, Execute 5432 tag_search_sql [], Print (OutFetched (length rows))]
                @ fst (for_each rows print_crafting_row)
                @ [Execute 5432 sections_sql []], Inl (Raised e))
         | Inr sections \<Rightarrow>
             ([Connected 5432, Execute 5432 tag_search_sql [], Print (OutFetched (length rows))]
                @ fst (for_each rows print_crafting_row)
                @ [Execute 5432 sections_sql []]
                @ map (\<lambda>section. Print (OutSection section)) sections
                @ [CloseCursor 5432, CloseConn 5432], Inr ()))))"
  using assms
  by (simp add: find_crafting_body_def then_do_connected then_do_query_raise then_do_query_rows
      then_do_emit for_each_emit then_do_value fst_emit snd_emit
      then_do_split [of "for_each rows print_crafting_row" for rows]
      split: sum.splits)

section \<open>Laws of the readers\<close>

lemma attempts_append: "attempts (xs @ ys) = attempts xs @ attempts ys"
  by (induction xs rule: attempts.induct) simp_all

lemma opened_append: "opened (xs @ ys) = opened xs @ opened ys"
  by (induction xs rule: opened.induct) simp_all

lemma released_append: "released (xs @ ys) = released xs @ released ys"
  by (induction xs rule: released.induct) simp_all

lemma executed_append: "executed (xs @ ys) = executed xs @ executed ys"
  by (induction xs rule: executed.induct) simp_all

lemma printed_records_append:
  "printed_records (xs @ ys) = printed_records xs @ printed_records ys"
  by (induction xs rule: printed_records.induct) simp_all


lemma printed_tables_append:
  "printed_tables (xs @ ys) = printed_tables xs @ printed_tables ys"
  by (induction xs rule: printed_tables.induct) simp_all

lemma printed_errors_append:
  "printed_errors (xs @ ys) = printed_errors xs @ printed_errors ys"
  by (induction xs rule: printed_errors.induct) simp_all

lemma attempts_prints: "attempts (map (\<lambda>x. Print (g x)) xs) = []"
  by (induction xs) simp_all

lemma opened_prints: "opened (map (\<lambda>x. Print (g x)) xs) = []"
  by (induction xs) simp_all

lemma released_prints: "released (map (\<lambda>x. Print (g x)) xs) = []"
  by (induction xs) simp_all

lemma executed_prints: "executed (map (\<lambda>x. Print (g x)) xs) = []"
  by (induction xs) simp_all

lemma attempts_print_rows:
  "attempts (map (\<lambda>(guid, section, data). Print (g guid section data)) rows) = []"
  by (induction rows) auto

lemma opened_print_rows:
  "opened (map (\<lambda>(guid, section, data). Print (g guid section data)) rows) = []"
  by (induction rows) auto

lemma released_print_rows:
  "released (map (\<lambda>(guid, section, data). Print (g guid section data)) rows) = []"
  by (induction rows) auto

lemma executed_print_rows:
  "executed (map (\<lambda>(guid, section, data). Print (g guid section data)) rows) = []"
  by (induction rows) auto

lemma printed_records_rows:
  "printed_records (map (\<lambda>(guid, section, data). Print (OutRecord guid section data)) rows)
     = rows"
  by (induction rows) auto

section \<open>The row loop of find_crafting.py\<close>

lemma print_crafting_rows_Cons:
  "for_each ((guid, section, data) # rows) print_crafting_row =
     (case data of
        JObj members \<Rightarrow>
          (Print (OutRecord guid section data) # fst (for_each rows print_crafting_row),
           snd (for_each rows print_crafting_row))
      | _ \<Rightarrow> ([], Inl (Raised OtherException)))"
  by (cases data)
    (simp_all add: print_crafting_row_def then_do_emit raise_abort_def then_do_raise)

lemma print_crafting_rows_quiet:
  "attempts (fst (for_each rows print_crafting_row)) = []
   \<and> opened (fst (for_each rows print_crafting_row)) = []
   \<and> released (fst (for_each rows print_crafting_row)) = []
   \<and> executed (fst (for_each rows print_crafting_row)) = []
   \<and> snd (for_each rows print_crafting_row) \<noteq> Inl (Raised OperationalError)
   \<and> snd (for_each rows print_crafting_row) \<noteq> Inl (SystemExit n)"
proof (induction rows)
  case Nil
  then show ?case by (simp add: ret_def)
next
  case (Cons r rows)
  obtain g s d where r: "r = (g, s, d)" by (cases r) auto
  from Cons show ?case
    unfolding r by (cases d) (simp_all add: print_crafting_rows_Cons del: for_each.simps)
qed

lemma print_crafting_rows_objects:
  assumes "\<forall>(guid, section, data) \<in> set rows. \<exists>members. data = JObj members"
  shows "for_each rows print_crafting_row
     = (map (\<lambda>(guid, section, data). Print (OutRecord guid section data)) rows, Inr ())"
  using assms
proof (induction rows)
  case Nil
  then show ?case by (simp add: ret_def)
next
  case (Cons r rows)
  obtain g s d where r: "r = (g, s, d)" by (cases r) auto
  from Cons.prems r obtain members where d: "d = JObj members" by auto
  from Cons.prems have "\<forall>(guid, section, data) \<in> set rows. \<exists>members. data = JObj members"
    by simp
  with Cons.IH r d show ?case
    by (simp add: print_crafting_rows_Cons del: for_each.simps)
qed

lemma tag_search_rows_objects:
  "\<forall>(guid, section, data) \<in> set (tag_search sec tag rows). \<exists>members. data = JObj members"
proof -
  have "\<exists>members. d = JObj members" if "tag_search_where sec tag (g, s, d)" for g s d
    using that by (cases d) (simp_all add: tag_search_where_def json_field_def)
  then show ?thesis
    by (auto simp add: tag_search_def dest!: in_set_takeD)
qed

text \<open>A run of the body that obtained the connection: the connection, the tag search,
  and a rest without any further connection attempt.\<close>

lemma find_crafting_body_shape:
  assumes "connect st 5432 = None"
  shows "\<exists>rest r. find_crafting_body st
            = (Connected 5432 # Execute 5432 tag_search_sql [] # rest, r)
    \<and> attempts rest = [] \<and> opened rest = []
    \<and> prefix (executed rest) [(sections_sql, [])]
    \<and> r \<noteq> Inl (SystemExit n)
    \<and> (r = Inl (Raised OperationalError) \<longrightarrow>
          tag_rows st = Inl OperationalError \<or> distinct_sections st = Inl OperationalError)"
proof (cases "tag_rows st")
  case (Inl e)
  then show ?thesis
    by (simp add: find_crafting_body_connected [OF assms])
next
  case rows: (Inr rows)
  note quiet = print_crafting_rows_quiet [of rows n]
  show ?thesis
  proof (cases "snd (for_each rows print_crafting_row)")
    case (Inl a)
    with rows quiet show ?thesis
      by (simp add: find_crafting_body_connected [OF assms])
  next
    case loop: (Inr u)
    show ?thesis
    proof (cases "distinct_sections st")
      case (Inl e)
      with rows loop quiet show ?thesis
        by (simp add: find_crafting_body_connected [OF assms] attempts_append opened_append
            executed_append)
    next
      case (Inr sections)
      with rows loop quiet show ?thesis
        by (simp add: find_crafting_body_connected [OF assms] attempts_append opened_append
            executed_append attempts_prints opened_prints executed_prints)
    qed
  qed
qed

section \<open>Connection fallback of find_crafting.py\<close>

text \<open>
  Claim C10. When the connection on port 5432 fails with an operational error and the
  connection on port 6543 succeeds, the run consists of the failed attempt, the message
  and the second connection: no query is executed on it, no record is printed, the
  connection is never closed, and the script ends normally.
\<close>

theorem fallback_success_runs_nothing:
  assumes "connect st 5432 = Some OperationalError" and "connect st 6543 = None"
  shows "find_crafting st =
     ([ConnectFailed 5432 OperationalError,
       Print (OutError ''Connection failed on port 5432''),
       Connected 6543], Inr ())
    \<and> executed (trace (find_crafting st)) = []
    \<and> released (trace (find_crafting st)) = []
    \<and> printed_records (trace (find_crafting st)) = []"
  using assms
  by (simp add: find_crafting_def find_crafting_body_no_connect find_crafting_fallback_ok
      try_except_def trace_def)

theorem fallback_success_runs_nothing_witness:
  "find_crafting (postgres (refuse_direct OperationalError) empty_database) =
     ([ConnectFailed 5432 OperationalError,
       Print (OutError ''Connection failed on port 5432''),
       Connected 6543], Inr ())
    \<and> executed (trace (find_crafting (postgres (refuse_direct OperationalError) empty_database))) = []
    \<and> released (trace (find_crafting (postgres (refuse_direct OperationalError) empty_database))) = []
    \<and> printed_records (trace (find_crafting (postgres (refuse_direct OperationalError) empty_database))) = []"
proof -
  have a: "connect (postgres (refuse_direct OperationalError) empty_database) 5432
             = Some OperationalError"
    by (simp add: postgres_def refuse_direct_def)
  have b: "connect (postgres (refuse_direct OperationalError) empty_database) 6543 = None"
    by (simp add: postgres_def refuse_direct_def)
  show ?thesis by (rule fallback_success_runs_nothing [OF a b])
qed

text \<open>
  Claim C1, as the code has it. The two candidates are the ports 5432 and 6543, in this
  order. If the first connects and no later query raises an operational error, the second
  is never attempted. If the first fails with an operational error the second is attempted:
  when it connects the run is bound to it and ends normally, when it fails too (with any
  exception) the run reports CONNECTION FAILED and exits with status 1. If the first fails
  with any other exception, the second is not attempted: the run reports an unexpected
  error and exits with status 1.
\<close>

theorem find_crafting_resolution:
  "(connect st 5432 = None \<longrightarrow> tag_rows st \<noteq> Inl OperationalError \<longrightarrow>
      distinct_sections st \<noteq> Inl OperationalError \<longrightarrow>
        attempts (trace (find_crafting st)) = [5432] \<and> opened (trace (find_crafting st)) = [5432])
   \<and> (connect st 5432 = Some OperationalError \<longrightarrow> connect st 6543 = None \<longrightarrow>
        attempts (trace (find_crafting st)) = [5432, 6543]
        \<and> opened (trace (find_crafting st)) = [6543]
        \<and> outcome (find_crafting st) = Inr ())
   \<and> (connect st 5432 = Some OperationalError \<longrightarrow> connect st 6543 = Some e2 \<longrightarrow>
        attempts (trace (find_crafting st)) = [5432, 6543]
        \<and> opened (trace (find_crafting st)) = []
        \<and> printed_errors (trace (find_crafting st)) =
            [''Connection failed on port 5432'', ''Connection also failed on port 6543'',
             ''CONNECTION FAILED'']
        \<and> outcome (find_crafting st) = Inl (SystemExit 1))
   \<and> (connect st 5432 = Some OtherException \<longrightarrow>
        attempts (trace (find_crafting st)) = [5432]
        \<and> opened (trace (find_crafting st)) = []
        \<and> printed_errors (trace (find_crafting st)) = [''Unexpected error'']
        \<and> outcome (find_crafting st) = Inl (SystemExit 1))"
proof (intro conjI impI)
  assume c: "connect st 5432 = None" and t: "tag_rows st \<noteq> Inl OperationalError"
    and d: "distinct_sections st \<noteq> Inl OperationalError"
  have "attempts (trace (find_crafting st)) = [5432] \<and> opened (trace (find_crafting st)) = [5432]"
  proof -
    from find_crafting_body_shape [OF c, of 0] obtain rest r where
      body: "find_crafting_body st = (Connected 5432 # Execute 5432 tag_search_sql [] # rest, r)"
      and quiet: "attempts rest = []" "opened rest = []"
      and op: "r = Inl (Raised OperationalError) \<longrightarrow>
          tag_rows st = Inl OperationalError \<or> distinct_sections st = Inl OperationalError"
      by blast
    from op t d have "r \<noteq> Inl (Raised OperationalError)" by blast
    with body quiet show ?thesis
      by (simp add: find_crafting_def try_except_def trace_def find_crafting_unexpected_run
          attempts_append opened_append split: sum.splits abort.splits exn.splits)
  qed
  then show "attempts (trace (find_crafting st)) = [5432]"
    and "opened (trace (find_crafting st)) = [5432]" by simp_all
qed (simp_all add: find_crafting_def find_crafting_body_no_connect find_crafting_fallback_ok
      find_crafting_fallback_fails find_crafting_unexpected_run try_except_def trace_def
      outcome_def)

theorem find_crafting_resolution_witness:
  "(attempts (trace (find_crafting (postgres reachable empty_database))) = [5432]
      \<and> opened (trace (find_crafting (postgres reachable empty_database))) = [5432])
   \<and> (attempts (trace (find_crafting (postgres (refuse_direct OperationalError) empty_database)))
        = [5432, 6543]
      \<and> opened (trace (find_crafting (postgres (refuse_direct OperationalError) empty_database)))
        = [6543]
      \<and> outcome (find_crafting (postgres (refuse_direct OperationalError) empty_database))
        = Inr ())
   \<and> (attempts (trace (find_crafting (postgres (refuse_all OperationalError) empty_database)))
        = [5432, 6543]
      \<and> outcome (find_crafting (postgres (refuse_all OperationalError) empty_database))
        = Inl (SystemExit 1))
   \<and> (attempts (trace (find_crafting (postgres (refuse_direct OtherException) empty_database)))
        = [5432]
      \<and> outcome (find_crafting (postgres (refuse_direct OtherException) empty_database))
        = Inl (SystemExit 1))"
proof -
  have a: "connect (postgres reachable empty_database) 5432 = None"
    "tag_rows (postgres reachable empty_database) \<noteq> Inl OperationalError"
    "distinct_sections (postgres reachable empty_database) \<noteq> Inl OperationalError"
    by (simp_all add: postgres_def reachable_def)
  have b: "connect (postgres (refuse_direct OperationalError) empty_database) 5432
             = Some OperationalError"
    "connect (postgres (refuse_direct OperationalError) empty_database) 6543 = None"
    by (simp_all add: postgres_def refuse_direct_def)
  have c: "connect (postgres (refuse_all OperationalError) empty_database) 5432
             = Some OperationalError"
    "connect (postgres (refuse_all OperationalError) empty_database) 6543
             = Some OperationalError"
    by (simp_all add: postgres_def refuse_all_def)
  have d: "connect (postgres (refuse_direct OtherException) empty_database) 5432
             = Some OtherException"
    by (simp add: postgres_def refuse_direct_def)
  have A: "attempts (trace (find_crafting (postgres reachable empty_database))) = [5432]
      \<and> opened (trace (find_crafting (postgres reachable empty_database))) = [5432]"
    using find_crafting_resolution [of "postgres reachable empty_database" OperationalError] a
    by (elim conjE) simp
  have B: "attempts (trace (find_crafting (postgres (refuse_direct OperationalError) empty_database)))
        = [5432, 6543]
      \<and> opened (trace (find_crafting (postgres (refuse_direct OperationalError) empty_database)))
        = [6543]
      \<and> outcome (find_crafting (postgres (refuse_direct OperationalError) empty_database))
        = Inr ()"
    using find_crafting_resolution [of "postgres (refuse_direct OperationalError) empty_database"
        OperationalError] b
    by (elim conjE) simp
  have C: "attempts (trace (find_crafting (postgres (refuse_all OperationalError) empty_database)))
        = [5432, 6543]
      \<and> outcome (find_crafting (postgres (refuse_all OperationalError) empty_database))
        = Inl (SystemExit 1)"
    using find_crafting_resolution [of "postgres (refuse_all OperationalError) empty_database"
        OperationalError] c
    by (elim conjE) simp
  have D: "attempts (trace (find_crafting (postgres (refuse_direct OtherException) empty_database)))
        = [5432]
      \<and> outcome (find_crafting (postgres (refuse_direct OtherException) empty_database))
        = Inl (SystemExit 1)"
    using find_crafting_resolution [of "postgres (refuse_direct OtherException) empty_database"
        OperationalError] d
    by (elim conjE) simp
  show ?thesis using A B C D by (intro conjI) (elim conjE, assumption)+
qed

text \<open>
  Claim C1 as stated fails: the candidate on port 6543 is reachable, the candidate on port
  5432 fails with an exception that is not an operational error, and the run stops after
  the first attempt with exit status 1.
\<close>

theorem resolve_stops_on_other_failure:
  "connect (postgres (refuse_direct OtherException) empty_database) 6543 = None
   \<and> attempts (trace (find_crafting (postgres (refuse_direct OtherException) empty_database)))
       = [5432]
   \<and> opened (trace (find_crafting (postgres (refuse_direct OtherException) empty_database)))
       = []
   \<and> outcome (find_crafting (postgres (refuse_direct OtherException) empty_database))
       = Inl (SystemExit 1)"
proof -
  have d: "connect (postgres (refuse_direct OtherException) empty_database) 5432
             = Some OtherException"
    by (simp add: postgres_def refuse_direct_def)
  have "find_crafting (postgres (refuse_direct OtherException) empty_database)
          = ([ConnectFailed 5432 OtherException, Print (OutError ''Unexpected error'')],
             Inl (SystemExit 1))"
    by (simp add: find_crafting_def find_crafting_body_no_connect [OF d]
        find_crafting_unexpected_run try_except_def)
  then show ?thesis
    by (simp add: trace_def outcome_def postgres_def refuse_direct_def)
qed

section \<open>The runs of sample_data.py\<close>

lemma count_sections_loop_Nil: "count_sections_loop st [] = ([], Inr ())"
  by (simp add: count_sections_loop_def ret_def)

lemma count_sections_loop_Cons:
  "count_sections_loop st (s # secs) =
     (case count_section st s of
        Inl e \<Rightarrow> ([Execute 6543 count_section_sql [s]], Inl (Raised e))
      | Inr n \<Rightarrow>
          (Execute 6543 count_section_sql [s] # Print (OutSectionCount s n)
             # fst (count_sections_loop st secs),
           snd (count_sections_loop st secs)))"
  by (simp add: count_sections_loop_def then_do_query_raise then_do_query_rows then_do_raise
      then_do_value fst_emit snd_emit split: sum.splits)

lemma count_sections_loop_quiet:
  "opened (fst (count_sections_loop st secs)) = []
   \<and> released (fst (count_sections_loop st secs)) = []
   \<and> attempts (fst (count_sections_loop st secs)) = []
   \<and> printed_records (fst (count_sections_loop st secs)) = []
   \<and> printed_errors (fst (count_sections_loop st secs)) = []
   \<and> snd (count_sections_loop st secs) \<noteq> Inl (SystemExit n)"
  by (induction secs)
    (simp_all add: count_sections_loop_Nil count_sections_loop_Cons split: sum.splits)

lemma count_sections_loop_statements:
  "prefix (executed (fst (count_sections_loop st secs)))
     (map (\<lambda>s. (count_section_sql, [s])) secs)"
  by (induction secs)
    (simp_all add: count_sections_loop_Nil count_sections_loop_Cons split: sum.splits)

lemma sample_data_body_run:
  "sample_data_body st =
     (case count_all st of
        Inl e \<Rightarrow> ([Execute 6543 count_all_sql []], Inl (Raised e))
      | Inr cnt \<Rightarrow>
       (case sample_rows st of
          Inl e \<Rightarrow>
            ([Execute 6543 count_all_sql [], Print (OutTotal cnt),
              Execute 6543 sample_sql []], Inl (Raised e))
        | Inr rows \<Rightarrow>
         (case distinct_sections st of
            Inl e \<Rightarrow>
              ([Execute 6543 count_all_sql [], Print (OutTotal cnt),
                Execute 6543 sample_sql [], Print (OutFetched (length rows))]
               @ map (\<lambda>(guid, section, data). Print (OutRecord guid section data)) rows
               @ [Execute 6543 sections_sql []], Inl (Raised e))
          | Inr sections \<Rightarrow>
              ([Execute 6543 count_all_sql [], Print (OutTotal cnt),
                Execute 6543 sample_sql [], Print (OutFetched (length rows))]
               @ map (\<lambda>(guid, section, data). Print (OutRecord guid section data)) rows
               @ [Execute 6543 sections_sql []]
               @ fst (count_sections_loop st sections),
               snd (count_sections_loop st sections)))))"
  by (simp add: sample_data_body_def then_do_query_raise then_do_query_rows then_do_emit
      for_each_emit_rows then_do_value split: sum.splits)

lemma sample_data_body_quiet:
  "opened (fst (sample_data_body st)) = []
   \<and> released (fst (sample_data_body st)) = []
   \<and> attempts (fst (sample_data_body st)) = []
   \<and> snd (sample_data_body st) \<noteq> Inl (SystemExit n)"
  using count_sections_loop_quiet [of st _ n]
  by (simp add: sample_data_body_run opened_append released_append attempts_append
      opened_print_rows released_print_rows attempts_print_rows split: sum.splits)

lemma sample_data_no_connect:
  assumes "connect st 6543 = Some e"
  shows "sample_data st =
    ([ConnectFailed 6543 e, Print (OutError ''Connection failed'')], Inl (SystemExit 1))"
  using assms
  by (simp add: sample_data_def db_connect_def try_except_def then_do_emit raise_abort_def
      then_do_raise)

lemma sample_data_connected:
  assumes "connect st 6543 = None"
  shows "sample_data st =
    (case snd (sample_data_body st) of
       Inr u \<Rightarrow>
         (Connected 6543 # fst (sample_data_body st) @ [CloseCursor 6543, CloseConn 6543],
          Inr ())
     | Inl a \<Rightarrow>
         (Connected 6543 # fst (sample_data_body st)
            @ [Print (OutError ''Error during query''), CloseCursor 6543, CloseConn 6543],
          Inr ()))"
proof (cases "sample_data_body st")
  case (Pair es r)
  show ?thesis
  proof (cases r)
    case (Inl a)
    with sample_data_body_quiet [of st] Pair obtain e where "a = Raised e"
      by (cases a) auto
    with Inl Pair assms show ?thesis
      by (simp add: sample_data_def db_connect_def try_except_def try_finally_def then_do_emit
          then_do_value emit_def)
  next
    case (Inr u)
    with Pair assms show ?thesis
      by (simp add: sample_data_def db_connect_def try_except_def try_finally_def then_do_emit
          then_do_value emit_def)
  qed
qed

text \<open>On every run of sample_data.py that obtained a connection, the connection is closed
  exactly once, by the last event of the run.\<close>

lemma sample_data_closes_once:
  assumes "connect st 6543 = None"
  shows "opened (trace (sample_data st)) = [6543]
    \<and> released (trace (sample_data st)) = [6543]
    \<and> last (trace (sample_data st)) = CloseConn 6543
    \<and> outcome (sample_data st) = Inr ()"
  using sample_data_body_quiet [of st]
  by (simp add: sample_data_connected [OF assms] trace_def outcome_def opened_append
      released_append split: sum.splits)

section \<open>Release of the connection\<close>

text \<open>
  Claim C4 asks that every run closes its connection exactly once. sample_data.py does
  (lemma \<open>sample_data_closes_once\<close>). The other two scripts close only at the end of their
  straight path: find_crafting.py leaves the connection of port 6543 open after the
  fallback, and the connection of port 5432 open when a query raises; discover_schema.py
  leaves its connection open when the catalog query raises.
\<close>

theorem connection_left_open:
  "opened (trace (find_crafting (postgres (refuse_direct OperationalError) empty_database)))
     = [6543]
   \<and> released (trace (find_crafting (postgres (refuse_direct OperationalError) empty_database)))
     = []
   \<and> outcome (find_crafting (postgres (refuse_direct OperationalError) empty_database)) = Inr ()
   \<and> opened (trace (find_crafting tag_query_down)) = [5432]
   \<and> released (trace (find_crafting tag_query_down)) = []
   \<and> outcome (find_crafting tag_query_down) = Inl (SystemExit 1)
   \<and> opened (trace (discover_schema catalog_down)) = [6543]
   \<and> released (trace (discover_schema catalog_down)) = []
   \<and> outcome (discover_schema catalog_down) = Inl (Raised OperationalError)"
proof -
  have a: "connect (postgres (refuse_direct OperationalError) empty_database) 5432
             = Some OperationalError"
    "connect (postgres (refuse_direct OperationalError) empty_database) 6543 = None"
    by (simp_all add: postgres_def refuse_direct_def)
  have 1: "find_crafting (postgres (refuse_direct OperationalError) empty_database) =
     ([ConnectFailed 5432 OperationalError,
       Print (OutError ''Connection failed on port 5432''),
       Connected 6543], Inr ())"
    by (simp add: find_crafting_def find_crafting_body_no_connect [OF a(1)]
        find_crafting_fallback_ok [OF a(2)] try_except_def)
  have b: "connect tag_query_down 5432 = None" "tag_rows tag_query_down = Inl OtherException"
    by (simp_all add: tag_query_down_def postgres_def reachable_def)
  have 2: "find_crafting tag_query_down =
     ([Connected 5432, Execute 5432 tag_search_sql [], Print (OutError ''Unexpected error'')],
      Inl (SystemExit 1))"
    by (simp add: find_crafting_def find_crafting_body_connected [OF b(1)] b(2)
        find_crafting_unexpected_run try_except_def)
  have c: "connect catalog_down 6543 = None" "tables catalog_down = Inl OperationalError"
    by (simp_all add: catalog_down_def postgres_def reachable_def)
  have 3: "discover_schema catalog_down =
     ([Connected 6543, Execute 6543 list_tables_sql []], Inl (Raised OperationalError))"
    by (simp add: discover_schema_def then_do_connected [OF c(1)] c(2) then_do_query_raise)
  show ?thesis
    by (simp add: 1 2 3 trace_def outcome_def)
qed

section \<open>A payload that cannot be decoded\<close>

lemma fetchall_rows_malformed:
  "\<exists>w \<in> set ws. malformed w \<Longrightarrow> fetchall_rows ws = Inl OtherException"
proof (induction ws)
  case Nil
  then show ?case by simp
next
  case (Cons w ws)
  obtain g s payload where w: "w = (g, s, payload)"
    by (cases w) auto
  show ?case
  proof (cases payload)
    case (Malformed raw)
    with w show ?thesis by (simp add: decode_row_def)
  next
    case (Wellformed d)
    with w Cons.prems have "\<exists>w \<in> set ws. malformed w" by simp
    with Cons.IH have "fetchall_rows ws = Inl OtherException" .
    with w Wellformed show ?thesis by (simp add: decode_row_def)
  qed
qed

text \<open>
  Claim C3, as the code has it. sample_data.py has one handler around the whole batch and
  no handling per row. When a row of the sample batch has a payload that cannot be decoded,
  the fetch of the batch raises: the run reports one error for the batch, prints no record
  of the batch (the valid rows included), skips the section counts, closes the cursor and
  the connection and ends normally.
\<close>

theorem malformed_row_aborts_batch:
  assumes "connect st 6543 = None" and "count_all st = Inr n"
    and "sample_rows st = fetchall_rows ws" and "\<exists>w \<in> set ws. malformed w"
  shows "sample_data st =
    ([Connected 6543, Execute 6543 count_all_sql [], Print (OutTotal n),
      Execute 6543 sample_sql [], Print (OutError ''Error during query''),
      CloseCursor 6543, CloseConn 6543], Inr ())
    \<and> printed_records (trace (sample_data st)) = []
    \<and> printed_counts (trace (sample_data st)) = []
    \<and> printed_errors (trace (sample_data st)) = [''Error during query'']"
proof -
  have "sample_rows st = Inl OtherException"
    using assms(3,4) by (simp add: fetchall_rows_malformed)
  with assms(2) have "sample_data_body st =
      ([Execute 6543 count_all_sql [], Print (OutTotal n), Execute 6543 sample_sql []],
       Inl (Raised OtherException))"
    by (simp add: sample_data_body_run)
  then have "sample_data st =
    ([Connected 6543, Execute 6543 count_all_sql [], Print (OutTotal n),
      Execute 6543 sample_sql [], Print (OutError ''Error during query''),
      CloseCursor 6543, CloseConn 6543], Inr ())"
    by (simp add: sample_data_connected [OF assms(1)])
  then show ?thesis by (simp add: trace_def)
qed

theorem malformed_row_aborts_batch_witness:
  "sample_data malformed_batch =
    ([Connected 6543, Execute 6543 count_all_sql [], Print (OutTotal 2),
      Execute 6543 sample_sql [], Print (OutError ''Error during query''),
      CloseCursor 6543, CloseConn 6543], Inr ())
    \<and> printed_records (trace (sample_data malformed_batch)) = []
    \<and> printed_counts (trace (sample_data malformed_batch)) = []
    \<and> printed_errors (trace (sample_data malformed_batch)) = [''Error during query'']"
proof -
  have a: "connect malformed_batch 6543 = None"
    by (simp add: malformed_batch_def postgres_def reachable_def)
  have b: "count_all malformed_batch = Inr 2"
    by (simp add: malformed_batch_def)
  have c: "sample_rows malformed_batch = fetchall_rows
         [(''g1'', ''items'', Malformed ''{''), (''g2'', ''items'', Wellformed (JObj []))]"
    by (simp add: malformed_batch_def)
  have d: "\<exists>w \<in> set [(''g1'', ''items'', Malformed ''{''),
                       (''g2'', ''items'', Wellformed (JObj []))]. malformed w"
    by simp
  show ?thesis by (rule malformed_row_aborts_batch [OF a b c d])
qed

text \<open>
  Claim C3 as stated fails: in a batch of a malformed row followed by a valid row, the
  valid row is not returned, and the only report is the one for the whole batch.
\<close>

theorem valid_row_lost_with_malformed_row:
  "malformed (''g1'', ''items'', Malformed ''{'')
   \<and> \<not> malformed (''g2'', ''items'', Wellformed (JObj []))
   \<and> sample_rows malformed_batch = Inl OtherException
   \<and> (''g2'', ''items'', JObj []) \<notin> set (printed_records (trace (sample_data malformed_batch)))
   \<and> printed_errors (trace (sample_data malformed_batch)) = [''Error during query'']"
proof -
  have a: "connect malformed_batch 6543 = None"
    by (simp add: malformed_batch_def postgres_def reachable_def)
  have b: "count_all malformed_batch = Inr 2"
    by (simp add: malformed_batch_def)
  have c: "sample_rows malformed_batch = Inl OtherException"
    by (simp add: malformed_batch_def decode_row_def)
  have "sample_data_body malformed_batch =
      ([Execute 6543 count_all_sql [], Print (OutTotal 2), Execute 6543 sample_sql []],
       Inl (Raised OtherException))"
    by (simp add: sample_data_body_run b c)
  then have "sample_data malformed_batch =
    ([Connected 6543, Execute 6543 count_all_sql [], Print (OutTotal 2),
      Execute 6543 sample_sql [], Print (OutError ''Error during query''),
      CloseCursor 6543, CloseConn 6543], Inr ())"
    by (simp add: sample_data_connected [OF a])
  then show ?thesis by (simp add: trace_def c)
qed

section \<open>Answers of a PostgreSQL store\<close>

lemma postgres_fields:
  "connect (postgres reach db) = reach"
  "count_all (postgres reach db) = Inr (int (length (codex db)))"
  "sample_rows (postgres reach db) = Inr (take 5 (codex db))"
  "tag_rows (postgres reach db) = Inr (tag_search ''items'' ''Artisanship.Crafting'' (codex db))"
  "distinct_sections (postgres reach db)
     = Inr (sort (remdups (map (\<lambda>(guid, section, data). section) (codex db))))"
  "count_section (postgres reach db) s = Inr (section_count (codex db) s)"
  "tables (postgres reach db) = Inr (list_tables db)"
  "columns (postgres reach db) schema table = Inr (list_columns db schema table)"
  by (simp_all add: postgres_def)

section \<open>Statements sent to the store\<close>

lemma sample_data_statements:
  "prefix (executed (trace (sample_data st)))
     ([(count_all_sql, []), (sample_sql, []), (sections_sql, [])]
      @ map (\<lambda>s. (count_section_sql, [s]))
          (case distinct_sections st of Inl e \<Rightarrow> [] | Inr sections \<Rightarrow> sections))"
proof (cases "connect st 6543")
  case (Some e)
  then show ?thesis by (simp add: sample_data_no_connect trace_def)
next
  case None
  have body: "prefix (executed (fst (sample_data_body st)))
     ([(count_all_sql, []), (sample_sql, []), (sections_sql, [])]
      @ map (\<lambda>s. (count_section_sql, [s]))
          (case distinct_sections st of Inl e \<Rightarrow> [] | Inr sections \<Rightarrow> sections))"
  proof (cases "count_all st")
    case (Inl e)
    then show ?thesis by (simp add: sample_data_body_run)
  next
    case total: (Inr n)
    show ?thesis
    proof (cases "sample_rows st")
      case (Inl e)
      with total show ?thesis by (simp add: sample_data_body_run)
    next
      case rows: (Inr rows)
      show ?thesis
      proof (cases "distinct_sections st")
        case (Inl e)
        with total rows show ?thesis
          by (simp add: sample_data_body_run executed_append executed_print_rows)
      next
        case (Inr sections)
        with total rows count_sections_loop_statements [of st sections] show ?thesis
          by (simp add: sample_data_body_run executed_append executed_print_rows)
      qed
    qed
  qed
  show ?thesis
    using body
    by (simp add: sample_data_connected [OF None] trace_def executed_append split: sum.splits)
qed

lemma find_crafting_statements:
  "prefix (executed (trace (find_crafting st))) [(tag_search_sql, []), (sections_sql, [])]"
proof (cases "connect st 5432")
  case None
  from find_crafting_body_shape [OF None, of 0] obtain rest r where
    body: "find_crafting_body st = (Connected 5432 # Execute 5432 tag_search_sql [] # rest, r)"
    and stmts: "prefix (executed rest) [(sections_sql, [])]"
    by blast
  from stmts have "executed rest = [] \<or> executed rest = [(sections_sql, [])]"
    by (cases "executed rest") auto
  with body show ?thesis
    by (cases "connect st 6543")
      (auto simp add: find_crafting_def try_except_def trace_def find_crafting_fallback_ok
        find_crafting_fallback_fails find_crafting_unexpected_run executed_append
        split: sum.splits abort.splits exn.splits)
next
  case (Some e)
  show ?thesis
    by (cases "connect st 6543")
      (simp_all add: find_crafting_def find_crafting_body_no_connect [OF Some] try_except_def
        trace_def find_crafting_fallback_ok find_crafting_fallback_fails
        find_crafting_unexpected_run split: exn.splits)
qed

lemma tag_search_sql_literals:
  "sublist ''section = 'items' '' tag_search_sql"
  "sublist ''Artisanship.Crafting'' tag_search_sql"
  unfolding tag_search_sql_def nl_def by code_simp+

text \<open>
  Claim C2, as the code has it. The only value the scripts pass as a bound parameter is
  the section of the per-section count query of sample_data.py: the statements of the
  count loop are, in order and up to the first failure, the one constant text with the
  parameter list \<open>[section]\<close>, so the text is the same for any two sections. Every other
  statement of sample_data.py and find_crafting.py has a constant text and no parameters;
  the tag search of find_crafting.py carries its section and its tag inside the text.
\<close>

theorem section_is_bound_only_in_count_query:
  "prefix (executed (trace (count_sections_loop st secs)))
     (map (\<lambda>s. (count_section_sql, [s])) secs)
   \<and> prefix (executed (trace (sample_data st)))
       ([(count_all_sql, []), (sample_sql, []), (sections_sql, [])]
        @ map (\<lambda>s. (count_section_sql, [s]))
            (case distinct_sections st of Inl e \<Rightarrow> [] | Inr sections \<Rightarrow> sections))
   \<and> prefix (executed (trace (find_crafting st))) [(tag_search_sql, []), (sections_sql, [])]
   \<and> sublist ''section = 'items' '' tag_search_sql
   \<and> sublist ''Artisanship.Crafting'' tag_search_sql"
  using count_sections_loop_statements [of st secs] sample_data_statements [of st]
    find_crafting_statements [of st] tag_search_sql_literals
  by (simp add: trace_def)

text \<open>
  Claim C2 as stated fails: the tag search is sent without any bound parameter, and the
  tag and the section it searches for are part of the query text.
\<close>

theorem tag_search_has_no_parameters:
  "executed (trace (find_crafting (postgres reachable empty_database)))
     = [(tag_search_sql, []), (sections_sql, [])]
   \<and> sublist ''section = 'items' '' tag_search_sql
   \<and> sublist ''Artisanship.Crafting'' tag_search_sql"
proof -
  have a: "connect (postgres reachable empty_database) 5432 = None"
    by (simp add: postgres_fields reachable_def)
  have b: "tag_search ''items'' ''Artisanship.Crafting'' (codex empty_database) = []"
    by (simp add: tag_search_def empty_database_def)
  have "executed (trace (find_crafting (postgres reachable empty_database)))
     = [(tag_search_sql, []), (sections_sql, [])]"
    by (simp add: find_crafting_def find_crafting_body_connected [OF a] try_except_def
        trace_def postgres_fields b executed_append executed_prints ret_def)
  then show ?thesis
    using tag_search_sql_literals by simp
qed

section \<open>Counts by section\<close>






text \<open>The client-side tally of sample_data_api.py: every section that occurs in the
  response is mapped to its number of records, and no other key is present.\<close>

lemma tally_accumulates:
  "tally m secs s =
     (if s \<in> set secs
      then Some ((case m s of None \<Rightarrow> 0 | Some c \<Rightarrow> c) + int (count_list secs s))
      else m s)"
  by (induction secs arbitrary: m) auto

lemma tally_counts:
  "tally Map.empty secs s = (if s \<in> set secs then Some (int (count_list secs s)) else None)"
  by (simp add: tally_accumulates)


section \<open>The row cap of the fetches\<close>

lemma sample_data_postgres_records:
  "printed_records (trace (sample_data (postgres reachable db))) = take 5 (codex db)"
proof -
  have a: "connect (postgres reachable db) 6543 = None"
    by (simp add: postgres_fields reachable_def)
  show ?thesis
    using count_sections_loop_quiet [of "postgres reachable db"]
    by (simp add: sample_data_connected [OF a] sample_data_body_run postgres_fields
        trace_def printed_records_append printed_records_rows split: sum.splits)
qed

lemma find_crafting_postgres:
  "find_crafting (postgres reachable db) =
     ([Connected 5432, Execute 5432 tag_search_sql [],
       Print (OutFetched (length (tag_search ''items'' ''Artisanship.Crafting'' (codex db))))]
      @ map (\<lambda>(guid, section, data). Print (OutRecord guid section data))
          (tag_search ''items'' ''Artisanship.Crafting'' (codex db))
      @ [Execute 5432 sections_sql []]
      @ map (\<lambda>section. Print (OutSection section))
          (sort (remdups (map (\<lambda>(guid, section, data). section) (codex db))))
      @ [CloseCursor 5432, CloseConn 5432], Inr ())"
proof -
  have a: "connect (postgres reachable db) 5432 = None"
    by (simp add: postgres_fields reachable_def)
  show ?thesis
    by (simp add: find_crafting_def find_crafting_body_connected [OF a] postgres_fields
        try_except_def print_crafting_rows_objects [OF tag_search_rows_objects])
qed

lemma printed_records_sections:
  "printed_records (map (\<lambda>section. Print (OutSection section)) secs) = []"
  by (induction secs) simp_all

lemma find_crafting_postgres_records:
  "printed_records (trace (find_crafting (postgres reachable db)))
     = tag_search ''items'' ''Artisanship.Crafting'' (codex db)"
  by (simp add: find_crafting_postgres trace_def printed_records_append printed_records_rows
      printed_records_sections)

lemma sample_data_starts_with_connect: "attempts (take 1 (trace (sample_data st))) = [6543]"
proof (cases "connect st 6543")
  case None
  then show ?thesis
    by (simp add: sample_data_connected trace_def split: sum.splits)
next
  case (Some e)
  then show ?thesis
    by (simp add: sample_data_no_connect trace_def)
qed

lemma find_crafting_starts_with_connect:
  "attempts (take 1 (trace (find_crafting st))) = [5432]"
proof (cases "connect st 5432")
  case None
  from find_crafting_body_shape [OF None, of 0] obtain rest r where
    "find_crafting_body st = (Connected 5432 # Execute 5432 tag_search_sql [] # rest, r)"
    by blast
  then show ?thesis
    by (simp add: find_crafting_def try_except_def trace_def
        split: sum.splits abort.splits exn.splits prod.splits)
next
  case (Some e)
  then show ?thesis
    by (simp add: find_crafting_def find_crafting_body_no_connect try_except_def trace_def
        find_crafting_unexpected_run split: exn.splits prod.splits)
qed

lemma limit_literals:
  "sublist ''LIMIT 5'' sample_sql"
  "sublist ''LIMIT 5'' tag_search_sql"
  unfolding sample_sql_def tag_search_sql_def nl_def by code_simp+

text \<open>
  Claim C8, as the code has it. No fetch of the scripts takes a limit: the row cap is the
  constant 5 written in the text of each fetch query. Against a store that answers, the
  sample fetch yields the first 5 rows of the table (all rows when there are fewer), and
  the tag search the first 5 matching rows. No run fails because of a limit, and every
  run of the two scripts begins with its connection attempt.
\<close>

theorem fetch_cap_is_five:
  "printed_records (trace (sample_data (postgres reachable db))) = take 5 (codex db)
   \<and> length (printed_records (trace (sample_data (postgres reachable db))))
       = min 5 (length (codex db))
   \<and> printed_records (trace (find_crafting (postgres reachable db)))
       = take 5 (filter (tag_search_where ''items'' ''Artisanship.Crafting'') (codex db))
   \<and> outcome (find_crafting (postgres reachable db)) = Inr ()
   \<and> sublist ''LIMIT 5'' sample_sql
   \<and> sublist ''LIMIT 5'' tag_search_sql
   \<and> attempts (take 1 (trace (sample_data st))) = [6543]
   \<and> attempts (take 1 (trace (find_crafting st))) = [5432]"
proof (intro conjI)
  show "printed_records (trace (sample_data (postgres reachable db))) = take 5 (codex db)"
    by (rule sample_data_postgres_records)
  show "length (printed_records (trace (sample_data (postgres reachable db))))
          = min 5 (length (codex db))"
    by (simp add: sample_data_postgres_records min.commute)
  show "printed_records (trace (find_crafting (postgres reachable db)))
          = take 5 (filter (tag_search_where ''items'' ''Artisanship.Crafting'') (codex db))"
    by (simp add: find_crafting_postgres_records tag_search_def)
  show "outcome (find_crafting (postgres reachable db)) = Inr ()"
    by (simp add: find_crafting_postgres outcome_def)
  show "sublist ''LIMIT 5'' sample_sql" and "sublist ''LIMIT 5'' tag_search_sql"
    by (rule limit_literals)+
  show "attempts (take 1 (trace (sample_data st))) = [6543]"
    by (rule sample_data_starts_with_connect)
  show "attempts (take 1 (trace (find_crafting st))) = [5432]"
    by (rule find_crafting_starts_with_connect)
qed

text \<open>
  Claim C8 as stated fails: the scripts have no limit to set to 0 or to a negative value.
  Against a table of six rows the fetch returns five and the run ends normally.
\<close>

theorem six_rows_capped_at_five:
  "length (codex six_rows) = 6
   \<and> length (printed_records (trace (sample_data (postgres reachable six_rows)))) = 5
   \<and> outcome (sample_data (postgres reachable six_rows)) = Inr ()"
proof -
  have a: "connect (postgres reachable six_rows) 6543 = None"
    by (simp add: postgres_fields reachable_def)
  have "length (codex six_rows) = 6"
    by (simp add: six_rows_def)
  then show ?thesis
    using sample_data_closes_once [OF a]
    by (simp add: sample_data_postgres_records)
qed

section \<open>Tag containment\<close>

lemma jsonb_contains_singleton_string:
  "jsonb_contains tags (JArr [JStr tag]) = (\<exists>elems. tags = JArr elems \<and> JStr tag \<in> set elems)"
  by (cases tags) (simp_all add: jsonb_contains_def)

lemma tag_search_where_iff:
  "tag_search_where sec tag (guid, section, data)
     = (section = sec
        \<and> (\<exists>elems. json_field data ''gameplayTags'' = Some (JArr elems)
                   \<and> JStr tag \<in> set elems))"
  by (cases "json_field data ''gameplayTags''")
    (simp_all add: tag_search_where_def jsonb_contains_singleton_string)

lemma tag_search_examples:
  "tag_search ''items'' ''Artisanship.Crafting'' [iron_ingot] = [iron_ingot]"
  "tag_search ''items'' ''Crafting'' [iron_ingot] = []"
  "tag_search ''items'' ''artisanship.crafting'' [iron_ingot] = []"
  by (simp_all add: tag_search_def iron_ingot_def tag_search_where_iff json_field_def)

text \<open>
  Claim C5. The condition of the tag search holds for a record exactly when the record is
  of the searched section and the member \<open>gameplayTags\<close> of its payload is an array that
  has the searched tag among its elements, as the very same string. Against the record
  tagged \<open>Artisanship.Crafting\<close> and \<open>Common\<close>, the tag \<open>Crafting\<close> and the tag in lower case
  match nothing, the full tag matches the record. In find_crafting.py the section and the
  tag are the literals \<open>items\<close> and \<open>Artisanship.Crafting\<close>; its run prints the matches (at
  most 5) and ends normally also when there is none.
\<close>

theorem tag_containment_exact:
  "tag_search_where sec tag (guid, section, data)
     = (section = sec
        \<and> (\<exists>elems. json_field data ''gameplayTags'' = Some (JArr elems)
                   \<and> JStr tag \<in> set elems))
   \<and> tag_search ''items'' ''Artisanship.Crafting'' [iron_ingot] = [iron_ingot]
   \<and> tag_search ''items'' ''Crafting'' [iron_ingot] = []
   \<and> tag_search ''items'' ''artisanship.crafting'' [iron_ingot] = []
   \<and> tag_rows (postgres reach db)
       = Inr (tag_search ''items'' ''Artisanship.Crafting'' (codex db))
   \<and> printed_records (trace (find_crafting (postgres reachable db)))
       = tag_search ''items'' ''Artisanship.Crafting'' (codex db)
   \<and> printed_records (trace (find_crafting (postgres reachable empty_database))) = []
   \<and> outcome (find_crafting (postgres reachable db)) = Inr ()"
proof (intro conjI)
  show "tag_search_where sec tag (guid, section, data)
     = (section = sec
        \<and> (\<exists>elems. json_field data ''gameplayTags'' = Some (JArr elems)
                   \<and> JStr tag \<in> set elems))"
    by (rule tag_search_where_iff)
  show "tag_search ''items'' ''Artisanship.Crafting'' [iron_ingot] = [iron_ingot]"
    and "tag_search ''items'' ''Crafting'' [iron_ingot] = []"
    and "tag_search ''items'' ''artisanship.crafting'' [iron_ingot] = []"
    by (rule tag_search_examples)+
  show "tag_rows (postgres reach db)
       = Inr (tag_search ''items'' ''Artisanship.Crafting'' (codex db))"
    by (simp add: postgres_fields)
  show "printed_records (trace (find_crafting (postgres reachable db)))
       = tag_search ''items'' ''Artisanship.Crafting'' (codex db)"
    by (rule find_crafting_postgres_records)
  show "printed_records (trace (find_crafting (postgres reachable empty_database))) = []"
    by (simp add: find_crafting_postgres_records tag_search_def empty_database_def)
  show "outcome (find_crafting (postgres reachable db)) = Inr ()"
    by (simp add: find_crafting_postgres outcome_def)
qed

section \<open>Columns of a table\<close>







section \<open>Tables of the store\<close>

lemma list_tables_set:
  "set (list_tables db)
     = {t \<in> set (catalog_tables db). fst t \<noteq> ''pg_catalog'' \<and> fst t \<noteq> ''information_schema''}"
  by (auto simp add: list_tables_def)

lemma list_tables_sorted: "sorted (list_tables db)"
  by (simp add: list_tables_def)

lemma list_tables_row_order:
  assumes "mset (catalog_tables db) = mset (catalog_tables db')"
  shows "list_tables db = list_tables db'"
proof -
  let ?keep = "\<lambda>(schema, table). schema \<notin> {''pg_catalog'', ''information_schema''}"
  have "mset (filter ?keep (catalog_tables db)) = mset (filter ?keep (catalog_tables db'))"
    using assms by simp
  then have "mset (list_tables db') = mset (filter ?keep (catalog_tables db))"
    by (simp add: list_tables_def)
  then have "sort (filter ?keep (catalog_tables db)) = list_tables db'"
    using list_tables_sorted [of db'] by (rule properties_for_sort)
  then show ?thesis by (simp add: list_tables_def)
qed

lemma describe_table_postgres:
  "describe_table (postgres reach db) (schema, table) =
     (Print (OutTableHeader schema table)
        # Execute 6543 list_columns_sql [schema, table]
        # map (\<lambda>(col_name, data_type, nullable, dflt).
                 Print (OutColumn col_name data_type (null_str nullable) (default_str dflt)))
            (list_columns db schema table),
      Inr ())"
proof -
  have "for_each (list_columns db schema table)
          (\<lambda>(col_name, data_type, nullable, dflt).
             emit (Print (OutColumn col_name data_type (null_str nullable) (default_str dflt))))
        = (map (\<lambda>(col_name, data_type, nullable, dflt).
                 Print (OutColumn col_name data_type (null_str nullable) (default_str dflt)))
            (list_columns db schema table), Inr ())"
    by (rule for_each_emit_gen) (simp add: split_beta)
  then show ?thesis
    by (simp add: describe_table_def then_do_emit then_do_query_rows postgres_fields)
qed

lemma printed_tables_columns:
  "printed_tables (map (\<lambda>(col_name, data_type, nullable, dflt).
       Print (OutColumn col_name data_type (null_str nullable) (default_str dflt))) cols) = []"
  by (induction cols) auto

lemma released_columns:
  "released (map (\<lambda>(col_name, data_type, nullable, dflt).
       Print (OutColumn col_name data_type (null_str nullable) (default_str dflt))) cols) = []"
  by (induction cols) auto

lemma describe_tables_postgres:
  "snd (for_each tabs (describe_table (postgres reach db))) = Inr ()
   \<and> printed_tables (fst (for_each tabs (describe_table (postgres reach db)))) = []
   \<and> released (fst (for_each tabs (describe_table (postgres reach db)))) = []"
proof (induction tabs)
  case Nil
  then show ?case by (simp add: ret_def)
next
  case (Cons t tabs)
  obtain schema table where t: "t = (schema, table)" by (cases t) auto
  with Cons show ?case
    by (simp add: describe_table_postgres then_do_value printed_tables_columns
        released_columns printed_tables_append released_append)
qed

lemma printed_tables_rows:
  "printed_tables (map (\<lambda>(schema, table). Print (OutTable schema table)) tabs) = tabs"
  by (induction tabs) auto

lemma discover_schema_postgres_tables:
  "printed_tables (trace (discover_schema (postgres reachable db))) = list_tables db
   \<and> outcome (discover_schema (postgres reachable db)) = Inr ()"
proof -
  have a: "connect (postgres reachable db) 6543 = None"
    by (simp add: postgres_fields reachable_def)
  have b: "for_each (list_tables db) (\<lambda>(schema, table). emit (Print (OutTable schema table)))
       = (map (\<lambda>(schema, table). Print (OutTable schema table)) (list_tables db), Inr ())"
    by (rule for_each_emit_gen) (simp add: split_beta)
  obtain es where c: "for_each (list_tables db) (describe_table (postgres reachable db))
      = (es, Inr ())" and d: "printed_tables es = []"
    using describe_tables_postgres [of "list_tables db" reachable db]
    by (cases "for_each (list_tables db) (describe_table (postgres reachable db))") auto
  show ?thesis
    by (simp add: discover_schema_def then_do_connected [OF a] then_do_query_rows
        postgres_fields b c d then_do_value then_do_emit fst_emit snd_emit trace_def
        outcome_def printed_tables_append printed_tables_rows)
qed

text \<open>
  Claim C9, as the code has it. The table query leaves out exactly the tables of the two
  schemas \<open>pg_catalog\<close> and \<open>information_schema\<close>: every table of any other schema is
  listed, those of the schemas the platform of the store manages included. The result is in ascending order of (schema, table), and it does not depend on
  the order in which the catalog holds its rows, so two calls against an unchanged
  catalog give the same sequence. discover_schema.py prints this sequence.
\<close>

theorem list_tables_filter_and_order:
  "(\<forall>(schema, table) \<in> set (list_tables db).
       schema \<noteq> ''pg_catalog'' \<and> schema \<noteq> ''information_schema'')
   \<and> set (list_tables db)
       = {t \<in> set (catalog_tables db).
            fst t \<noteq> ''pg_catalog'' \<and> fst t \<noteq> ''information_schema''}
   \<and> sorted (list_tables db)
   \<and> (mset (catalog_tables db) = mset (catalog_tables db') \<longrightarrow>
        list_tables db = list_tables db')
   \<and> printed_tables (trace (discover_schema (postgres reachable db))) = list_tables db
   \<and> outcome (discover_schema (postgres reachable db)) = Inr ()"
  using list_tables_set [of db] list_tables_sorted [of db] list_tables_row_order [of db db']
    discover_schema_postgres_tables [of db]
  by auto

theorem list_tables_filter_and_order_witness:
  "list_tables example_catalog
     = [(''auth'', ''users''), (''public'', ''codex''), (''realtime'', ''schema_migrations'')]
   \<and> (''pg_catalog'', ''pg_class'') \<in> set (catalog_tables example_catalog)
   \<and> (''pg_catalog'', ''pg_class'') \<notin> set (list_tables example_catalog)
   \<and> (''information_schema'', ''tables'') \<notin> set (list_tables example_catalog)
   \<and> sorted (list_tables example_catalog)
   \<and> mset (catalog_tables example_catalog)
       = mset (catalog_tables (example_catalog \<lparr> catalog_tables :=
            rev (catalog_tables example_catalog) \<rparr>))
   \<and> list_tables example_catalog
       = list_tables (example_catalog \<lparr> catalog_tables := rev (catalog_tables example_catalog) \<rparr>)
   \<and> printed_tables (trace (discover_schema (postgres reachable example_catalog)))
       = list_tables example_catalog"
proof -
  have a: "list_tables example_catalog
     = [(''auth'', ''users''), (''public'', ''codex''), (''realtime'', ''schema_migrations'')]"
    by code_simp
  have b: "mset (catalog_tables example_catalog)
       = mset (catalog_tables (example_catalog \<lparr> catalog_tables :=
            rev (catalog_tables example_catalog) \<rparr>))"
    by simp
  have c: "(''pg_catalog'', ''pg_class'') \<in> set (catalog_tables example_catalog)"
    by (simp add: example_catalog_def)
  show ?thesis
    using a b c
      list_tables_filter_and_order [of example_catalog
        "example_catalog \<lparr> catalog_tables := rev (catalog_tables example_catalog) \<rparr>"]
    by blast
qed

text \<open>
  Claim C9 as stated fails: the table \<open>schema_migrations\<close> of the schema \<open>realtime\<close>,
  in which the platform of the store keeps the bookkeeping of one of its services, is
  listed, since only two schema names are filtered.
\<close>

theorem store_internal_schema_listed:
  "store_internal_schema ''realtime''
   \<and> (''realtime'', ''schema_migrations'') \<in> set (catalog_tables example_catalog)
   \<and> (''realtime'', ''schema_migrations'') \<in> set (list_tables example_catalog)"
  by (simp add: list_tables_set store_internal_schema_def platform_schemas_def
      example_catalog_def)

end
